theory Spec2Isabelle
  imports Complex_Main
begin

section \<open>The gacha system: entities, draw service and event dispatcher\<close>

text \<open>
  A shallow embedding of the TypeScript sources. Conventions:
  \<^item> A method of a class takes the object first and returns the updated object; a method
    that can throw returns a pair of the outcome (\<open>Inl\<close> the error, \<open>Inr\<close> the value) and
    the object as the throw leaves it, so that a mutation made before a throw stays visible.
  \<^item> The currency amounts (\<open>number\<close> in the source, whole numbers everywhere it writes one)
    are \<open>int\<close>; the weights of the pool and the random value are \<open>real\<close>. \<open>NaN\<close>, the
    infinities and rounding are outside the model.
  \<^item> Each \<open>throw new Error(...)\<close> is one constructor of \<open>error\<close>, carrying the values the
    message interpolates. The texts shown to the user (messages, display names,
    descriptions) are not modelled as text.
  \<^item> \<open>createdAt\<close>, and the \<open>eventId\<close> and \<open>occurredOn\<close> that the base class of the events
    gives each event, are not modelled: no operation below reads them.
  \<^item> A parameter with a default value (the reason of \<open>spendCurrency\<close>, the currency of a new
    player) is always given.
  \<^item> A string is a list of code units below 256.
\<close>

datatype error =
    InvalidRarity string
  | EmptyItemId
  | EmptyItemName
  | EmptyPlayerId
  | EmptyPlayerName
  | NegativeCurrency
  | AlreadyOwned string string
  | NotOwned string string
  | RemoveFailed string
  | InvalidAddAmount int
  | InvalidSpendAmount int
  | InsufficientBalance int int
  | UndefinedFallback
  | HandlerFailure

subsection \<open>Strings: what \<open>!s || s.trim() === ''\<close> tests\<close>

definition whitespace :: "char list" where
  "whitespace = [CHR 0x09, CHR 0x0A, CHR 0x0B, CHR 0x0C, CHR 0x0D, CHR 0x20, CHR 0xA0]"

definition blank :: "string \<Rightarrow> bool" where
  "blank s = list_all (\<lambda>c. c \<in> set whitespace) s"

subsection \<open>Rarity (value object)\<close>

record Rarity =
  rvalue :: string
  rate :: real

definition VALID_RARITIES :: "string list" where
  "VALID_RARITIES = [''N'', ''R'', ''SR'', ''SSR'', ''UR'']"

definition DEFAULT_RATES :: "(string \<times> real) list" where
  "DEFAULT_RATES = [(''N'', 50), (''R'', 30), (''SR'', 15), (''SSR'', 4), (''UR'', 1)]"

definition isValidRarity :: "string \<Rightarrow> bool" where
  "isValidRarity rarity = (rarity \<in> set VALID_RARITIES)"

text \<open>\<open>Rarity.create\<close>: the only way to a \<open>Rarity\<close> (the constructor is private).\<close>

definition Rarity_create :: "string \<Rightarrow> error + Rarity" where
  "Rarity_create rarity =
     (if \<not> isValidRarity rarity then Inl (InvalidRarity rarity)
      else case map_of DEFAULT_RATES rarity of
             Some r \<Rightarrow> Inr \<lparr>rvalue = rarity, rate = r\<rparr>
           | None \<Rightarrow> Inl (InvalidRarity rarity))"

subsection \<open>GachaItem (entity, identified by its id)\<close>

datatype Description =
    DescriptionUR | DescriptionSSR | DescriptionSR | DescriptionR | DescriptionN
  | DescriptionDefault | DescriptionEmpty

record GachaItem =
  item_id :: string
  item_name :: string
  rarity :: Rarity
  description :: Description

definition GachaItem_new :: "string \<Rightarrow> string \<Rightarrow> Rarity \<Rightarrow> Description \<Rightarrow> error + GachaItem" where
  "GachaItem_new i n r d =
     (if blank i then Inl EmptyItemId
      else if blank n then Inl EmptyItemName
      else Inr \<lparr>item_id = i, item_name = n, rarity = r, description = d\<rparr>)"

definition equals :: "GachaItem \<Rightarrow> GachaItem \<Rightarrow> bool" where
  "equals this other = (item_id this = item_id other)"

subsection \<open>Domain events\<close>

datatype ExecutionType = single | ten_pull

datatype DomainEvent =
    CurrencySpentEvent string int int string "string option"
  | GachaExecutedEvent string int ExecutionType
  | ItemObtainedEvent string string string string bool

fun getEventName :: "DomainEvent \<Rightarrow> string" where
  "getEventName (CurrencySpentEvent playerId amount remainingBalance spendingReason relatedItemId) =
     ''CurrencySpent''"
| "getEventName (GachaExecutedEvent playerId gachaCost executionType) = ''GachaExecuted''"
| "getEventName (ItemObtainedEvent playerId itemId itemName rar isFirstTime) = ''ItemObtained''"

subsection \<open>Player (entity)\<close>

record Player =
  player_id :: string
  playerName :: string
  gachaCurrency :: int
  inventory :: "GachaItem list"
  events :: "DomainEvent list"


definition hasItem :: "Player \<Rightarrow> GachaItem \<Rightarrow> bool" where
  "hasItem p item = list_ex (\<lambda>inventoryItem. equals inventoryItem item) (inventory p)"

definition addItem :: "Player \<Rightarrow> GachaItem \<Rightarrow> (error + unit) \<times> Player" where
  "addItem p item =
     (if hasItem p item then (Inl (AlreadyOwned (item_name item) (item_id item)), p)
      else (Inr (), p\<lparr>inventory := inventory p @ [item]\<rparr>))"

definition removeItem :: "Player \<Rightarrow> GachaItem \<Rightarrow> (error + unit) \<times> Player" where
  "removeItem p item =
     (if \<not> hasItem p item then (Inl (NotOwned (item_name item) (item_id item)), p)
      else
        let initialLength = length (inventory p);
            p' = p\<lparr>inventory := filter (\<lambda>inventoryItem. \<not> equals inventoryItem item) (inventory p)\<rparr>
        in if length (inventory p') = initialLength then (Inl (RemoveFailed (item_id item)), p')
           else (Inr (), p'))"

definition addCurrency :: "Player \<Rightarrow> int \<Rightarrow> (error + unit) \<times> Player" where
  "addCurrency p amount =
     (if amount < 0 then (Inl (InvalidAddAmount amount), p)
      else (Inr (), p\<lparr>gachaCurrency := gachaCurrency p + amount\<rparr>))"

definition addEvent :: "Player \<Rightarrow> DomainEvent \<Rightarrow> Player" where
  "addEvent p event = p\<lparr>events := events p @ [event]\<rparr>"

definition spendCurrency :: "Player \<Rightarrow> int \<Rightarrow> string \<Rightarrow> (error + unit) \<times> Player" where
  "spendCurrency p amount reason =
     (if amount < 0 then (Inl (InvalidSpendAmount amount), p)
      else if gachaCurrency p < amount then (Inl (InsufficientBalance amount (gachaCurrency p)), p)
      else
        let p' = p\<lparr>gachaCurrency := gachaCurrency p - amount\<rparr>;
            event = CurrencySpentEvent (player_id p') amount (gachaCurrency p') reason None
        in (Inr (), addEvent p' event))"

definition canAffordGacha :: "Player \<Rightarrow> int \<Rightarrow> bool" where
  "canAffordGacha p cost = (gachaCurrency p \<ge> cost \<and> cost \<ge> 0)"

definition getEvents :: "Player \<Rightarrow> DomainEvent list" where
  "getEvents p = events p"

definition clearEvents :: "Player \<Rightarrow> Player" where
  "clearEvents p = p\<lparr>events := []\<rparr>"

subsection \<open>SimpleGachaMachine: weighted sampling\<close>

record PoolItem =
  pool_id :: string
  pool_name :: string
  pool_rarity :: Rarity
  weight :: real

record SimpleGachaMachine =
  gachaPool :: "PoolItem list"

definition generateDescription :: "Rarity \<Rightarrow> Description" where
  "generateDescription r =
     (if rvalue r = ''UR'' then DescriptionUR
      else if rvalue r = ''SSR'' then DescriptionSSR
      else if rvalue r = ''SR'' then DescriptionSR
      else if rvalue r = ''R'' then DescriptionR
      else if rvalue r = ''N'' then DescriptionN
      else DescriptionDefault)"

text \<open>
  The \<open>for\<close> loop of \<open>draw\<close>: \<open>None\<close> when the loop ends without a \<open>return\<close>, otherwise
  what the \<open>return new GachaItem(...)\<close> of the first matching entry gives.
\<close>

fun draw_loop :: "PoolItem list \<Rightarrow> real \<Rightarrow> real \<Rightarrow> (error + GachaItem) option" where
  "draw_loop [] currentWeight randomValue = None"
| "draw_loop (poolItem # rest) currentWeight randomValue =
     (let currentWeight' = currentWeight + weight poolItem
      in if randomValue \<le> currentWeight'
         then Some (GachaItem_new (pool_id poolItem) (pool_name poolItem) (pool_rarity poolItem)
                      (generateDescription (pool_rarity poolItem)))
         else draw_loop rest currentWeight' randomValue)"

definition totalWeight :: "PoolItem list \<Rightarrow> real" where
  "totalWeight pool = foldl (\<lambda>sum item. sum + weight item) 0 pool"

text \<open>\<open>draw\<close>, with the value of \<open>Math.random()\<close> as the argument \<open>random\<close>.\<close>

definition draw :: "SimpleGachaMachine \<Rightarrow> real \<Rightarrow> error + GachaItem" where
  "draw m random =
     (let randomValue = random * totalWeight (gachaPool m)
      in case draw_loop (gachaPool m) 0 randomValue of
           Some r \<Rightarrow> r
         | None \<Rightarrow>
             (case gachaPool m of
                [] \<Rightarrow> Inl UndefinedFallback
              | fallback # _ \<Rightarrow>
                  GachaItem_new (pool_id fallback) (pool_name fallback) (pool_rarity fallback)
                    DescriptionEmpty))"

subsection \<open>GachaService\<close>

definition priceMap :: "(string \<times> int) list" where
  "priceMap = [(''N'', 10), (''R'', 50), (''SR'', 200), (''SSR'', 1000), (''UR'', 5000)]"

definition calculateSellPrice :: "Rarity \<Rightarrow> int" where
  "calculateSellPrice r = (case map_of priceMap (rvalue r) of Some v \<Rightarrow> v | None \<Rightarrow> 0)"

text \<open>The local constant \<open>gachaCost\<close> of \<open>executeSingleGacha\<close>.\<close>

definition gachaCost :: int where
  "gachaCost = 100"

definition executeSingleGacha ::
  "SimpleGachaMachine \<Rightarrow> real \<Rightarrow> Player \<Rightarrow> (error + GachaItem) \<times> Player" where
  "executeSingleGacha gachaMachine random player =
     (if \<not> canAffordGacha player gachaCost
      then (Inl (InsufficientBalance gachaCost (gachaCurrency player)), player)
      else (case spendCurrency player gachaCost ''gacha'' of
        (Inl e, p1) \<Rightarrow> (Inl e, p1)
      | (Inr _, p1) \<Rightarrow>
          (let gachaEvent = GachaExecutedEvent (player_id p1) gachaCost single;
               p2 = addEvent p1 gachaEvent
           in (case draw gachaMachine random of
                 Inl e \<Rightarrow> (Inl e, p2)
               | Inr drawnItem \<Rightarrow>
                   (let isFirstTime = \<not> hasItem p2 drawnItem
                    in (case (if \<not> isFirstTime
                              then addCurrency p2 (calculateSellPrice (rarity drawnItem))
                              else addItem p2 drawnItem) of
                          (Inl e, p3) \<Rightarrow> (Inl e, p3)
                        | (Inr _, p3) \<Rightarrow>
                            (let itemEvent = ItemObtainedEvent (player_id p3) (item_id drawnItem)
                                   (item_name drawnItem) (rvalue (rarity drawnItem)) isFirstTime
                             in (Inr drawnItem, addEvent p3 itemEvent))))))))"

subsection \<open>EventDispatcher\<close>

text \<open>
  A handler is an asynchronous function of the event. Of its run the dispatcher sees only
  how its promise settles: it resolves, it rejects, or it never settles. An \<open>await\<close> on a
  promise that never settles never returns: the operations below return \<open>None\<close> then.
\<close>

datatype Settlement = Resolved | Rejected | Pending

type_synonym EventHandler = "DomainEvent \<Rightarrow> Settlement"

record EventDispatcher =
  handlers :: "string \<Rightarrow> EventHandler list option"

definition EventDispatcher_new :: EventDispatcher where
  "EventDispatcher_new = \<lparr>handlers = Map.empty\<rparr>"

definition subscribe :: "EventDispatcher \<Rightarrow> string \<Rightarrow> EventHandler \<Rightarrow> EventDispatcher" where
  "subscribe d eventName handler =
     (let hs = (case handlers d eventName of None \<Rightarrow> [] | Some l \<Rightarrow> l)
      in d\<lparr>handlers := (handlers d)(eventName \<mapsto> hs @ [handler])\<rparr>)"

text \<open>
  \<open>await Promise.all(...)\<close>: rejects as soon as one promise rejects, resolves when all
  have resolved, and otherwise never settles.
\<close>

definition Promise_all :: "Settlement list \<Rightarrow> (error + unit) option" where
  "Promise_all ps =
     (if Rejected \<in> set ps then Some (Inl HandlerFailure)
      else if Pending \<in> set ps then None
      else Some (Inr ()))"

definition dispatch :: "EventDispatcher \<Rightarrow> DomainEvent \<Rightarrow> (error + unit) option" where
  "dispatch d event =
     (let eventName = getEventName event;
          eventHandlers = (case handlers d eventName of Some l \<Rightarrow> l | None \<Rightarrow> [])
      in if length eventHandlers = 0 then Some (Inr ())
         else Promise_all (map (\<lambda>handler. handler event) eventHandlers))"

fun dispatchAll :: "EventDispatcher \<Rightarrow> DomainEvent list \<Rightarrow> (error + unit) option" where
  "dispatchAll d [] = Some (Inr ())"
| "dispatchAll d (event # rest) =
     (case dispatch d event of
        None \<Rightarrow> None
      | Some (Inl e) \<Rightarrow> Some (Inl e)
      | Some (Inr _) \<Rightarrow> dispatchAll d rest)"

definition dispatchEntityEvents ::
  "EventDispatcher \<Rightarrow> Player \<Rightarrow> ((error + unit) \<times> Player) option" where
  "dispatchEntityEvents d entity =
     (let evs = getEvents entity
      in if length evs = 0 then Some (Inr (), entity)
         else case dispatchAll d evs of
                None \<Rightarrow> None
              | Some (Inl e) \<Rightarrow> Some (Inl e, entity)
              | Some (Inr _) \<Rightarrow> Some (Inr (), clearEvents entity))"

subsection \<open>Vocabulary of the properties\<close>

text \<open>
  \<open>precedes a b evs\<close>: the queue \<open>evs\<close> holds an event named \<open>a\<close> at a position before
  an event named \<open>b\<close>.
\<close>

fun precedes :: "string \<Rightarrow> string \<Rightarrow> DomainEvent list \<Rightarrow> bool" where
  "precedes a b [] = False"
| "precedes a b (e # es) =
     ((getEventName e = a \<and> b \<in> set (map getEventName es)) \<or> precedes a b es)"

text \<open>The events that a transaction from state \<open>p\<close> to state \<open>p'\<close> appended to the queue.\<close>

definition appended :: "Player \<Rightarrow> Player \<Rightarrow> DomainEvent list" where
  "appended p p' = drop (length (events p)) (events p')"

text \<open>
  The drain that \<open>dispatchEntityEvents\<close> performs: \<open>getEvents\<close>, then, once the dispatch is
  over, \<open>clearEvents\<close>. \<open>late\<close> are the events recorded on the entity between the two calls.
  The result is the batch that \<open>getEvents\<close> returned and the entity after \<open>clearEvents\<close>.
\<close>

definition drain :: "Player \<Rightarrow> DomainEvent list \<Rightarrow> DomainEvent list \<times> Player" where
  "drain p late = (let batch = getEvents p; p' = foldl addEvent p late in (batch, clearEvents p'))"






subsection \<open>The demo's data\<close>

text \<open>
  The pool that \<open>initializeGachaPool\<close> builds and the player of \<open>runGachaSystemDemo\<close>. The
  ids, rarities and weights are the source's; its display names are Japanese text, and an
  English reading stands for each here.
\<close>

definition rarityN :: Rarity where "rarityN = \<lparr>rvalue = ''N'', rate = 50\<rparr>"
definition rarityR :: Rarity where "rarityR = \<lparr>rvalue = ''R'', rate = 30\<rparr>"
definition raritySR :: Rarity where "raritySR = \<lparr>rvalue = ''SR'', rate = 15\<rparr>"
definition raritySSR :: Rarity where "raritySSR = \<lparr>rvalue = ''SSR'', rate = 4\<rparr>"
definition rarityUR :: Rarity where "rarityUR = \<lparr>rvalue = ''UR'', rate = 1\<rparr>"

definition demoMachine :: SimpleGachaMachine where
  "demoMachine = \<lparr>gachaPool =
     [\<lparr>pool_id = ''potion_001'', pool_name = ''HP potion'', pool_rarity = rarityN, weight = 25\<rparr>,
      \<lparr>pool_id = ''bread_001'', pool_name = ''hard bread'', pool_rarity = rarityN, weight = 25\<rparr>,
      \<lparr>pool_id = ''sword_001'', pool_name = ''steel sword'', pool_rarity = rarityR, weight = 15\<rparr>,
      \<lparr>pool_id = ''shield_001'', pool_name = ''iron shield'', pool_rarity = rarityR, weight = 15\<rparr>,
      \<lparr>pool_id = ''bow_001'', pool_name = ''elven bow'', pool_rarity = raritySR, weight = 8\<rparr>,
      \<lparr>pool_id = ''staff_001'', pool_name = ''sage staff'', pool_rarity = raritySR, weight = 7\<rparr>,
      \<lparr>pool_id = ''sword_002'', pool_name = ''Excalibur'', pool_rarity = raritySSR, weight = 4\<rparr>,
      \<lparr>pool_id = ''sword_999'', pool_name = ''sword of the gods'', pool_rarity = rarityUR,
         weight = 1\<rparr>]\<rparr>"

definition demoPlayer :: Player where
  "demoPlayer = \<lparr>player_id = ''player_001'', playerName = ''Taro'', gachaCurrency = 2000,
     inventory = [], events = []\<rparr>"

definition sword_999 :: GachaItem where
  "sword_999 = \<lparr>item_id = ''sword_999'', item_name = ''sword of the gods'', rarity = rarityUR,
     description = DescriptionUR\<rparr>"

text \<open>The demo's player after a first draw that gives the UR item, and after a second one.\<close>

definition demoPlayerAfterDraw :: Player where
  "demoPlayerAfterDraw = \<lparr>player_id = ''player_001'', playerName = ''Taro'', gachaCurrency = 1900,
     inventory = [sword_999],
     events = [CurrencySpentEvent ''player_001'' 100 1900 ''gacha'' None,
               GachaExecutedEvent ''player_001'' 100 single,
               ItemObtainedEvent ''player_001'' ''sword_999'' ''sword of the gods'' ''UR'' True]\<rparr>"


text \<open>
  The dispatcher of the demo, with a handler for \<open>GachaExecuted\<close> and one for
  \<open>ItemObtained\<close> that both resolve, and a dispatcher whose \<open>ItemObtained\<close> handler rejects.
  \<open>shopEvent\<close> is an event recorded by a later purchase.
\<close>

definition demoDispatcher :: EventDispatcher where
  "demoDispatcher =
     subscribe (subscribe EventDispatcher_new ''GachaExecuted'' (\<lambda>event. Resolved))
       ''ItemObtained'' (\<lambda>event. Resolved)"

definition failingDispatcher :: EventDispatcher where
  "failingDispatcher =
     subscribe (subscribe EventDispatcher_new ''GachaExecuted'' (\<lambda>event. Resolved))
       ''ItemObtained'' (\<lambda>event. Rejected)"

definition shopEvent :: DomainEvent where
  "shopEvent = CurrencySpentEvent ''player_001'' 5 1895 ''shop'' None"

section \<open>Properties\<close>

subsection \<open>Helper lemmas\<close>

lemma calculateSellPrice_nonneg: "0 \<le> calculateSellPrice r"
  by (simp add: calculateSellPrice_def priceMap_def)



text \<open>The demo's data are what the constructors of the source build.\<close>

lemma Rarity_create_demo:
  "Rarity_create ''N'' = Inr rarityN" "Rarity_create ''R'' = Inr rarityR"
  "Rarity_create ''SR'' = Inr raritySR" "Rarity_create ''SSR'' = Inr raritySSR"
  "Rarity_create ''UR'' = Inr rarityUR"
  by (simp_all add: Rarity_create_def isValidRarity_def VALID_RARITIES_def DEFAULT_RATES_def
      rarityN_def rarityR_def raritySR_def raritySSR_def rarityUR_def)



lemma draw_demo_UR: "draw demoMachine (199 / 200) = Inr sword_999"
  by (simp add: draw_def demoMachine_def totalWeight_def GachaItem_new_def blank_def
      whitespace_def generateDescription_def rarityUR_def rarityN_def rarityR_def raritySR_def
      raritySSR_def sword_999_def)

lemma demo_first_draw:
  "executeSingleGacha demoMachine (199 / 200) demoPlayer = (Inr sword_999, demoPlayerAfterDraw)"
  by (simp add: executeSingleGacha_def draw_demo_UR canAffordGacha_def gachaCost_def
      spendCurrency_def addEvent_def hasItem_def addItem_def demoPlayer_def
      demoPlayerAfterDraw_def sword_999_def rarityUR_def Let_def)


lemma executeSingleGacha_Inr:
  assumes "executeSingleGacha m random p = (Inr it, p')"
  shows "canAffordGacha p gachaCost \<and> draw m random = Inr it \<and>
    p' = p\<lparr>gachaCurrency :=
              (if hasItem p it then gachaCurrency p - gachaCost + calculateSellPrice (rarity it)
               else gachaCurrency p - gachaCost),
            inventory := (if hasItem p it then inventory p else inventory p @ [it]),
            events := events p @
              [CurrencySpentEvent (player_id p) gachaCost (gachaCurrency p - gachaCost) ''gacha'' None,
               GachaExecutedEvent (player_id p) gachaCost single,
               ItemObtainedEvent (player_id p) (item_id it) (item_name it) (rvalue (rarity it))
                 (\<not> hasItem p it)]\<rparr>"
  using assms calculateSellPrice_nonneg [of "rarity it"]
  by (auto simp: executeSingleGacha_def canAffordGacha_def spendCurrency_def addEvent_def
      addCurrency_def addItem_def hasItem_def Let_def
      split: if_splits sum.splits prod.splits)

lemma executeSingleGacha_inventory:
  assumes "executeSingleGacha m random p = (r, p')"
  shows "inventory p' = inventory p \<or>
         (\<exists>it. r = Inr it \<and> \<not> hasItem p it \<and> inventory p' = inventory p @ [it])"
  using assms
  by (auto simp: executeSingleGacha_def canAffordGacha_def spendCurrency_def addEvent_def
      addCurrency_def addItem_def hasItem_def Let_def
      split: if_splits sum.splits prod.splits)

subsection \<open>Player: currency\<close>




subsection \<open>Player: inventory\<close>

text \<open>
  Claim C10. \<open>hasItem\<close> holds exactly when a member of the inventory has the item's id.
  Then \<open>addItem\<close> throws and leaves the player, the inventory with it, unchanged;
  otherwise \<open>addItem\<close> appends the item to the inventory.
\<close>

theorem addItem_duplicate:
  "(hasItem p item \<longleftrightarrow> (\<exists>x \<in> set (inventory p). item_id x = item_id item)) \<and>
   (hasItem p item \<longrightarrow>
      addItem p item = (Inl (AlreadyOwned (item_name item) (item_id item)), p)) \<and>
   (\<not> hasItem p item \<longrightarrow> addItem p item = (Inr (), p\<lparr>inventory := inventory p @ [item]\<rparr>))"
  by (simp add: hasItem_def addItem_def equals_def list_ex_iff)

theorem addItem_duplicate_witness:
  "hasItem (demoPlayer\<lparr>inventory := [sword_999]\<rparr>) (sword_999\<lparr>item_name := ''copy''\<rparr>) \<and>
   addItem (demoPlayer\<lparr>inventory := [sword_999]\<rparr>) (sword_999\<lparr>item_name := ''copy''\<rparr>) =
     (Inl (AlreadyOwned ''copy'' ''sword_999''), demoPlayer\<lparr>inventory := [sword_999]\<rparr>) \<and>
   \<not> hasItem demoPlayer sword_999 \<and>
   addItem demoPlayer sword_999 = (Inr (), demoPlayer\<lparr>inventory := [sword_999]\<rparr>)"
  using addItem_duplicate [of "demoPlayer\<lparr>inventory := [sword_999]\<rparr>" "sword_999\<lparr>item_name := ''copy''\<rparr>"]
    addItem_duplicate [of demoPlayer sword_999]
  by (simp add: hasItem_def equals_def demoPlayer_def sword_999_def)

lemma removeItem_inventory:
  "inventory (snd (removeItem p item)) = filter (\<lambda>x. item_id x \<noteq> item_id item) (inventory p)"
proof (cases "hasItem p item")
  case True
  then show ?thesis by (simp add: removeItem_def Let_def equals_def)
next
  case False
  then have "\<forall>x \<in> set (inventory p). item_id x \<noteq> item_id item"
    by (simp add: hasItem_def equals_def list_ex_iff)
  then have "filter (\<lambda>x. item_id x \<noteq> item_id item) (inventory p) = inventory p"
    by (simp add: filter_id_conv)
  with False show ?thesis by (simp add: removeItem_def)
qed

lemma removeItem_succeeds: "fst (removeItem p item) = Inr () \<longleftrightarrow> hasItem p item"
proof (cases "hasItem p item")
  case True
  then obtain x where "x \<in> set (inventory p)" "\<not> (\<not> equals x item)"
    by (auto simp: hasItem_def list_ex_iff)
  then have "length (filter (\<lambda>x. \<not> equals x item) (inventory p)) < length (inventory p)"
    by (rule length_filter_less)
  with True show ?thesis by (simp add: removeItem_def Let_def)
next
  case False
  then show ?thesis by (simp add: removeItem_def)
qed

lemma dispatchEntityEvents_inventory:
  "dispatchEntityEvents d p = Some (r, p') \<Longrightarrow> inventory p' = inventory p"
  by (auto simp: dispatchEntityEvents_def clearEvents_def Let_def
      split: if_splits option.splits sum.splits)

text \<open>
  Claim C4 (as amended). \<open>addCurrency\<close>, \<open>spendCurrency\<close>, \<open>addEvent\<close>, \<open>clearEvents\<close> and
  \<open>dispatchEntityEvents\<close> leave the inventory as it is. \<open>addItem\<close> appends the item when
  the player does not own it and changes nothing otherwise; \<open>executeSingleGacha\<close> leaves the
  inventory as it is or, on a successful first-time draw, appends the drawn item. The one
  operation that removes members is \<open>removeItem\<close>, which the draw service never calls: it
  succeeds exactly when the player owns the item, and removes every member with the item's
  id.
\<close>

theorem inventory_changes:
  "inventory (snd (addCurrency p amount)) = inventory p \<and>
   inventory (snd (spendCurrency p amount reason)) = inventory p \<and>
   inventory (addEvent p event) = inventory p \<and>
   inventory (clearEvents p) = inventory p \<and>
   (\<forall>r p'. dispatchEntityEvents d p = Some (r, p') \<longrightarrow> inventory p' = inventory p) \<and>
   inventory (snd (addItem p item)) = (if hasItem p item then inventory p else inventory p @ [item]) \<and>
   (\<forall>r p'. executeSingleGacha m random p = (r, p') \<longrightarrow>
      inventory p' = inventory p \<or>
      (\<exists>it. r = Inr it \<and> \<not> hasItem p it \<and> inventory p' = inventory p @ [it])) \<and>
   inventory (snd (removeItem p item)) = filter (\<lambda>x. item_id x \<noteq> item_id item) (inventory p) \<and>
   (fst (removeItem p item) = Inr () \<longleftrightarrow> hasItem p item)"
proof -
  have "inventory (snd (addCurrency p amount)) = inventory p"
    by (simp add: addCurrency_def)
  moreover have "inventory (snd (spendCurrency p amount reason)) = inventory p"
    by (simp add: spendCurrency_def addEvent_def Let_def)
  moreover have "inventory (addEvent p event) = inventory p"
    by (simp add: addEvent_def)
  moreover have "inventory (clearEvents p) = inventory p"
    by (simp add: clearEvents_def)
  moreover have "\<forall>r p'. dispatchEntityEvents d p = Some (r, p') \<longrightarrow> inventory p' = inventory p"
    using dispatchEntityEvents_inventory by blast
  moreover have "inventory (snd (addItem p item)) =
      (if hasItem p item then inventory p else inventory p @ [item])"
    by (simp add: addItem_def)
  moreover have "\<forall>r p'. executeSingleGacha m random p = (r, p') \<longrightarrow>
      inventory p' = inventory p \<or>
      (\<exists>it. r = Inr it \<and> \<not> hasItem p it \<and> inventory p' = inventory p @ [it])"
    using executeSingleGacha_inventory by blast
  ultimately show ?thesis
    using removeItem_inventory [of p item] removeItem_succeeds [of p item] by blast
qed

theorem inventory_changes_witness:
  "dispatchEntityEvents demoDispatcher demoPlayerAfterDraw = Some (Inr (), clearEvents demoPlayerAfterDraw) \<and>
   inventory (clearEvents demoPlayerAfterDraw) = inventory demoPlayerAfterDraw \<and>
   executeSingleGacha demoMachine (199 / 200) demoPlayer = (Inr sword_999, demoPlayerAfterDraw) \<and>
   \<not> hasItem demoPlayer sword_999 \<and>
   inventory demoPlayerAfterDraw = inventory demoPlayer @ [sword_999] \<and>
   inventory (snd (removeItem demoPlayerAfterDraw sword_999)) = []"
proof -
  have d: "dispatchEntityEvents demoDispatcher demoPlayerAfterDraw =
      Some (Inr (), clearEvents demoPlayerAfterDraw)"
    by (simp add: dispatchEntityEvents_def getEvents_def demoPlayerAfterDraw_def dispatch_def
        demoDispatcher_def subscribe_def EventDispatcher_new_def Promise_all_def Let_def)
  from inventory_changes [of demoPlayerAfterDraw 0 "''x''" shopEvent demoDispatcher sword_999
      demoMachine 0]
    inventory_changes [of demoPlayer 0 "''x''" shopEvent demoDispatcher sword_999
      demoMachine "199 / 200"]
    d demo_first_draw
  show ?thesis
    by (simp add: demoPlayer_def demoPlayerAfterDraw_def hasItem_def clearEvents_def)
qed

text \<open>
  The claim as it was stated, that no operation removes a member of the inventory, fails
  on \<open>removeItem\<close>: after the first draw of the demo, removing the drawn item succeeds and
  the player no longer owns it.
\<close>

theorem inventory_never_shrinks_counterexample:
  "hasItem demoPlayerAfterDraw sword_999 \<and>
   removeItem demoPlayerAfterDraw sword_999 = (Inr (), demoPlayerAfterDraw\<lparr>inventory := []\<rparr>) \<and>
   \<not> hasItem (snd (removeItem demoPlayerAfterDraw sword_999)) sword_999"
  by (simp add: hasItem_def removeItem_def equals_def demoPlayerAfterDraw_def Let_def)

subsection \<open>Player: the event queue\<close>

lemma getEvents_foldl_addEvent: "getEvents (foldl addEvent p late) = getEvents p @ late"
  by (induction late arbitrary: p) (simp_all add: getEvents_def addEvent_def)

text \<open>
  Claim C2 (as amended). \<open>getEvents\<close> returns the whole queue, and \<open>clearEvents\<close> empties
  the queue whatever it holds. In a drain, the events recorded after \<open>getEvents\<close> returned
  extend the queue behind the batch already returned: they are not in the batch, and the
  \<open>clearEvents\<close> that follows discards them with the rest, so that the next drain is
  empty. With nothing recorded between the two calls, the batch is the whole queue and
  the entity afterwards is the old one with an empty queue: no event is lost and none is
  returned twice.
\<close>

theorem drain_events:
  "fst (drain p late) = getEvents p \<and>
   getEvents (foldl addEvent p late) = fst (drain p late) @ late \<and>
   getEvents (snd (drain p late)) = [] \<and>
   snd (drain p []) = clearEvents p \<and>
   getEvents (addEvent p e) = getEvents p @ [e] \<and>
   getEvents (clearEvents (addEvent p e)) = []"
  using getEvents_foldl_addEvent [of p late]
  by (simp add: drain_def getEvents_def clearEvents_def addEvent_def)

text \<open>
  The claim as it was stated fails after the first draw of the demo: \<open>shopEvent\<close>, recorded
  between the two calls, is not in the batch that \<open>getEvents\<close> returned, and it is not in
  the next drain either. The event is lost.
\<close>

theorem drain_events_counterexample:
  "shopEvent \<notin> set (fst (drain demoPlayerAfterDraw [shopEvent])) \<and>
   getEvents (addEvent demoPlayerAfterDraw shopEvent) =
     fst (drain demoPlayerAfterDraw [shopEvent]) @ [shopEvent] \<and>
   shopEvent \<notin> set (getEvents (snd (drain demoPlayerAfterDraw [shopEvent])))"
  by (simp add: drain_def getEvents_def clearEvents_def addEvent_def demoPlayerAfterDraw_def
      shopEvent_def)

subsection \<open>SimpleGachaMachine: the draw\<close>











subsection \<open>GachaService: the draw transaction\<close>

text \<open>
  Claim C5. A draw by a player whose balance is below the cost (or with a negative cost;
  the cost is the constant 100) throws the insufficient-balance error and returns the
  player unchanged: balance, inventory and event queue are as before.
\<close>

theorem executeSingleGacha_unaffordable:
  assumes "gachaCost < 0 \<or> gachaCurrency p < gachaCost"
  shows "executeSingleGacha m random p = (Inl (InsufficientBalance gachaCost (gachaCurrency p)), p)"
  using assms by (auto simp: executeSingleGacha_def canAffordGacha_def)

theorem executeSingleGacha_unaffordable_witness:
  "gachaCurrency (demoPlayer\<lparr>gachaCurrency := 99\<rparr>) < gachaCost \<and>
   executeSingleGacha demoMachine (1 / 2) (demoPlayer\<lparr>gachaCurrency := 99\<rparr>) =
     (Inl (InsufficientBalance 100 99), demoPlayer\<lparr>gachaCurrency := 99\<rparr>)"
  using executeSingleGacha_unaffordable [of "demoPlayer\<lparr>gachaCurrency := 99\<rparr>" demoMachine "1 / 2"]
  by (simp add: gachaCost_def demoPlayer_def)

text \<open>
  Claim C1 (as amended). A draw that succeeds appends exactly three events to the player's
  queue, in this order: \<open>CurrencySpent\<close> (amount 100, the balance after the debit, reason
  \<open>gacha\<close>), then \<open>GachaExecuted\<close>, then \<open>ItemObtained\<close>. So \<open>CurrencySpent\<close> precedes
  \<open>GachaExecuted\<close>, which precedes \<open>ItemObtained\<close>.
\<close>

theorem draw_event_order:
  assumes "executeSingleGacha m random p = (Inr it, p')"
  shows "events p' = events p @ appended p p' \<and>
         appended p p' =
           [CurrencySpentEvent (player_id p) gachaCost (gachaCurrency p - gachaCost) ''gacha'' None,
            GachaExecutedEvent (player_id p) gachaCost single,
            ItemObtainedEvent (player_id p) (item_id it) (item_name it) (rvalue (rarity it))
              (\<not> hasItem p it)] \<and>
         precedes ''CurrencySpent'' ''GachaExecuted'' (appended p p') \<and>
         precedes ''GachaExecuted'' ''ItemObtained'' (appended p p')"
proof -
  from executeSingleGacha_Inr [OF assms]
  have ev: "events p' = events p @
      [CurrencySpentEvent (player_id p) gachaCost (gachaCurrency p - gachaCost) ''gacha'' None,
       GachaExecutedEvent (player_id p) gachaCost single,
       ItemObtainedEvent (player_id p) (item_id it) (item_name it) (rvalue (rarity it))
         (\<not> hasItem p it)]"
    by simp
  then show ?thesis
    by (simp add: appended_def)
qed

theorem draw_event_order_witness:
  "executeSingleGacha demoMachine (199 / 200) demoPlayer = (Inr sword_999, demoPlayerAfterDraw) \<and>
   appended demoPlayer demoPlayerAfterDraw =
     [CurrencySpentEvent ''player_001'' 100 1900 ''gacha'' None,
      GachaExecutedEvent ''player_001'' 100 single,
      ItemObtainedEvent ''player_001'' ''sword_999'' ''sword of the gods'' ''UR'' True] \<and>
   precedes ''CurrencySpent'' ''GachaExecuted'' (appended demoPlayer demoPlayerAfterDraw) \<and>
   precedes ''GachaExecuted'' ''ItemObtained'' (appended demoPlayer demoPlayerAfterDraw)"
  using draw_event_order [OF demo_first_draw] demo_first_draw
  by (simp add: demoPlayer_def sword_999_def rarityUR_def gachaCost_def hasItem_def)

text \<open>
  The order of the claim as it was stated, with \<open>ItemObtained\<close> before \<open>GachaExecuted\<close>,
  fails on the first draw of the demo: \<open>executeSingleGacha\<close> records \<open>GachaExecuted\<close> right
  after the debit, before it draws the item.
\<close>

theorem draw_event_order_counterexample:
  "executeSingleGacha demoMachine (199 / 200) demoPlayer = (Inr sword_999, demoPlayerAfterDraw) \<and>
   \<not> (precedes ''CurrencySpent'' ''ItemObtained'' (appended demoPlayer demoPlayerAfterDraw) \<and>
      precedes ''ItemObtained'' ''GachaExecuted'' (appended demoPlayer demoPlayerAfterDraw))"
  using demo_first_draw
  by (simp add: appended_def demoPlayer_def demoPlayerAfterDraw_def)



subsection \<open>EventDispatcher: the events of an entity\<close>

lemma dispatchAll_succeeds:
  "dispatchAll d evs = Some (Inr ()) \<longleftrightarrow> list_all (\<lambda>e. dispatch d e = Some (Inr ())) evs"
proof (induction evs)
  case Nil
  show ?case by simp
next
  case (Cons e evs)
  show ?case
  proof (cases "dispatch d e")
    case None
    then show ?thesis by simp
  next
    case (Some r)
    then show ?thesis using Cons.IH by (cases r) simp_all
  qed
qed

lemma dispatch_settles:
  assumes "\<forall>hs. handlers d (getEventName e) = Some hs \<longrightarrow> (\<forall>h \<in> set hs. h e \<noteq> Pending)"
  shows "dispatch d e \<noteq> None"
  using assms
  by (cases "handlers d (getEventName e)") (auto simp: dispatch_def Promise_all_def Let_def)

lemma dispatchAll_settles:
  assumes "\<forall>e \<in> set evs. \<forall>hs. handlers d (getEventName e) = Some hs \<longrightarrow>
             (\<forall>h \<in> set hs. h e \<noteq> Pending)"
  shows "dispatchAll d evs \<noteq> None"
  using assms
proof (induction evs)
  case Nil
  show ?case by simp
next
  case (Cons e evs)
  from Cons.prems have "dispatch d e \<noteq> None"
    by (intro dispatch_settles) simp
  moreover from Cons.prems have "dispatchAll d evs \<noteq> None"
    by (intro Cons.IH) simp
  ultimately show ?case
    by (auto split: option.splits sum.splits)
qed

lemma dispatchAll_demo:
  "dispatchAll demoDispatcher (getEvents demoPlayerAfterDraw) = Some (Inr ())"
  "dispatchAll failingDispatcher (getEvents demoPlayerAfterDraw) = Some (Inl HandlerFailure)"
  by (simp_all add: getEvents_def demoPlayerAfterDraw_def dispatch_def demoDispatcher_def
      failingDispatcher_def subscribe_def EventDispatcher_new_def Promise_all_def Let_def)

text \<open>
  Claim C8. \<open>dispatchEntityEvents\<close> returns unless \<open>dispatchAll\<close> on the queue never does,
  and so whenever every handler registered for an event of the queue settles on it.
  When it returns, its outcome is the outcome of \<open>dispatchAll\<close> on the queue, and the queue
  is empty afterwards exactly when every event of the batch was dispatched successfully.
  On success the entity is the old one with the queue cleared; on failure the error is
  returned and the entity is unchanged, its queue still holding the whole batch.
\<close>

theorem dispatchEntityEvents_clears_iff:
  "(dispatchEntityEvents d p = None \<longleftrightarrow> dispatchAll d (getEvents p) = None) \<and>
   ((\<forall>e \<in> set (getEvents p). \<forall>hs. handlers d (getEventName e) = Some hs \<longrightarrow>
       (\<forall>h \<in> set hs. h e \<noteq> Pending)) \<longrightarrow>
      dispatchEntityEvents d p \<noteq> None) \<and>
   (\<forall>r p'. dispatchEntityEvents d p = Some (r, p') \<longrightarrow>
      dispatchAll d (getEvents p) = Some r \<and>
      (getEvents p' = [] \<longleftrightarrow> list_all (\<lambda>e. dispatch d e = Some (Inr ())) (getEvents p)) \<and>
      (r = Inr () \<longleftrightarrow> list_all (\<lambda>e. dispatch d e = Some (Inr ())) (getEvents p)) \<and>
      (r = Inr () \<longrightarrow> p' = clearEvents p) \<and>
      (r \<noteq> Inr () \<longrightarrow> p' = p \<and> getEvents p' \<noteq> []))"
proof -
  have none: "dispatchEntityEvents d p = None \<longleftrightarrow> dispatchAll d (getEvents p) = None"
    by (cases "getEvents p")
      (auto simp: dispatchEntityEvents_def Let_def split: option.splits sum.splits)
  have some: "dispatchAll d (getEvents p) = Some r \<and>
      (getEvents p' = [] \<longleftrightarrow> list_all (\<lambda>e. dispatch d e = Some (Inr ())) (getEvents p)) \<and>
      (r = Inr () \<longleftrightarrow> list_all (\<lambda>e. dispatch d e = Some (Inr ())) (getEvents p)) \<and>
      (r = Inr () \<longrightarrow> p' = clearEvents p) \<and>
      (r \<noteq> Inr () \<longrightarrow> p' = p \<and> getEvents p' \<noteq> [])"
    if ret: "dispatchEntityEvents d p = Some (r, p')" for r p'
  proof (cases "getEvents p = []")
    case True
    with ret have "r = Inr ()" "p' = p"
      by (simp_all add: dispatchEntityEvents_def)
    with True show ?thesis
      by (simp add: clearEvents_def getEvents_def)
  next
    case False
    show ?thesis
    proof (cases r)
      case (Inl e)
      with ret False have "dispatchAll d (getEvents p) = Some (Inl e)" "p' = p"
        by (auto simp: dispatchEntityEvents_def Let_def split: option.splits sum.splits)
      with Inl False show ?thesis
        using dispatchAll_succeeds [of d "getEvents p"] by simp
    next
      case (Inr u)
      with ret False have "dispatchAll d (getEvents p) = Some (Inr ())" "p' = clearEvents p"
        by (auto simp: dispatchEntityEvents_def Let_def split: option.splits sum.splits)
      with Inr show ?thesis
        using dispatchAll_succeeds [of d "getEvents p"]
        by (simp add: getEvents_def clearEvents_def)
    qed
  qed
  have settles: "dispatchEntityEvents d p \<noteq> None"
    if "\<forall>e \<in> set (getEvents p). \<forall>hs. handlers d (getEventName e) = Some hs \<longrightarrow>
          (\<forall>h \<in> set hs. h e \<noteq> Pending)"
    using dispatchAll_settles [OF that] none by simp
  from none some settles show ?thesis by blast
qed

theorem dispatchEntityEvents_clears_iff_witness:
  "dispatchEntityEvents demoDispatcher demoPlayerAfterDraw =
     Some (Inr (), clearEvents demoPlayerAfterDraw) \<and>
   getEvents (clearEvents demoPlayerAfterDraw) = [] \<and>
   list_all (\<lambda>e. dispatch demoDispatcher e = Some (Inr ())) (getEvents demoPlayerAfterDraw) \<and>
   dispatchEntityEvents failingDispatcher demoPlayerAfterDraw =
     Some (Inl HandlerFailure, demoPlayerAfterDraw) \<and>
   getEvents demoPlayerAfterDraw \<noteq> [] \<and>
   \<not> list_all (\<lambda>e. dispatch failingDispatcher e = Some (Inr ())) (getEvents demoPlayerAfterDraw)"
proof -
  have ok: "dispatchEntityEvents demoDispatcher demoPlayerAfterDraw =
      Some (Inr (), clearEvents demoPlayerAfterDraw)"
    using dispatchAll_demo(1)
    by (simp add: dispatchEntityEvents_def getEvents_def demoPlayerAfterDraw_def)
  have ko: "dispatchEntityEvents failingDispatcher demoPlayerAfterDraw =
      Some (Inl HandlerFailure, demoPlayerAfterDraw)"
    using dispatchAll_demo(2)
    by (simp add: dispatchEntityEvents_def getEvents_def demoPlayerAfterDraw_def)
  from dispatchEntityEvents_clears_iff [of demoDispatcher demoPlayerAfterDraw]
    dispatchEntityEvents_clears_iff [of failingDispatcher demoPlayerAfterDraw] ok ko
  show ?thesis by simp
qed

end
